theory Spec2Isabelle
  imports Complex_Main
begin

section \<open>JavaScript values used by the rates service\<close>

subsection \<open>Numbers: IEEE 754 binary64\<close>

text \<open>
  A JavaScript number is a binary64 value: NaN, an infinity, or a finite value given by
  its sign (\<open>True\<close> is negative) and its magnitude, a non-negative rational. The sign is
  kept apart so that \<open>-0\<close> is \<open>Finite True 0\<close>.
\<close>

datatype jsnum = NaN | Infinity bool | Finite bool rat

definition pow2 :: "int \<Rightarrow> rat" where
  "pow2 e = (if 0 \<le> e then 2 ^ nat e else 1 / 2 ^ nat (- e))"

text \<open>The number of binary digits of a positive integer.\<close>

function bitlen :: "int \<Rightarrow> int" where
  "bitlen n = (if n \<le> 0 then 0 else 1 + bitlen (n div 2))"
  by pat_completeness auto
termination
  by (relation "measure nat") auto

declare bitlen.simps [simp del]

text \<open>\<open>ilog2 q\<close> is the binary exponent of a positive rational: \<open>2^e \<le> q < 2^(e+1)\<close>.\<close>

definition ilog2 :: "rat \<Rightarrow> int" where
  "ilog2 q = (if 1 \<le> q then bitlen \<lfloor>q\<rfloor> - 1 else - bitlen (\<lceil>1 / q\<rceil> - 1))"

definition round_half_even :: "rat \<Rightarrow> int" where
  "round_half_even t =
     (let f = \<lfloor>t\<rfloor>; r = t - of_int f
      in if r < 1 / 2 then f else if 1 / 2 < r then f + 1
         else if even f then f else f + 1)"

text \<open>
  Rounding of an exact non-negative magnitude to binary64, to nearest, ties to even:
  53 significant bits, the smallest unit \<open>2^-1074\<close> (subnormals), overflow to infinity.
\<close>

definition round_double :: "bool \<Rightarrow> rat \<Rightarrow> jsnum" where
  "round_double s q =
     (if q = 0 then Finite s 0
      else let e = max (ilog2 q) (- 1022);
               ulp = pow2 (e - 52);
               v = of_int (round_half_even (q / ulp)) * ulp
           in if pow2 1024 \<le> v then Infinity s else Finite s v)"

text \<open>The number denoted by a decimal literal of the source, such as \<open>0.92\<close>.\<close>

definition lit :: "rat \<Rightarrow> jsnum" where
  "lit q = round_double (q < 0) \<bar>q\<bar>"

subsection \<open>Values\<close>

text \<open>
  The values that reach the service: primitives, arrays and plain objects (what
  \<open>JSON.parse\<close> and object literals build). An object is the list of its own properties
  in enumeration order, keys distinct. Symbols, BigInts and functions do not occur.
\<close>

datatype jsval =
    Undefined
  | Null
  | Bool bool
  | Num jsnum
  | Str string
  | Arr "jsval list"
  | Obj "(string \<times> jsval) list"

datatype error =
    FetchRejected
  | HttpStatus nat
  | JsonSyntaxError
  | TypeError
  | StorageError

text \<open>Sequencing of steps that may throw: the first error ends the computation.\<close>

definition and_then :: "error + 'a \<Rightarrow> ('a \<Rightarrow> error + 'b) \<Rightarrow> error + 'b" where
  "and_then r f = (case r of Inl e \<Rightarrow> Inl e | Inr x \<Rightarrow> f x)"

subsection \<open>Property reads\<close>

definition digit_val :: "char \<Rightarrow> int option" where
  "digit_val c =
     (let n = (of_char c :: int) in if 48 \<le> n \<and> n \<le> 57 then Some (n - 48) else None)"

definition is_digit :: "char \<Rightarrow> bool" where
  "is_digit c = (digit_val c \<noteq> None)"

fun digits_val :: "int \<Rightarrow> string \<Rightarrow> int" where
  "digits_val acc [] = acc"
| "digits_val acc (c # cs) =
     digits_val (10 * acc + (case digit_val c of Some d \<Rightarrow> d | None \<Rightarrow> 0)) cs"

text \<open>A property key that is a canonical array index: decimal digits, no leading zero.\<close>

definition index_of_key :: "string \<Rightarrow> nat option" where
  "index_of_key k =
     (if k \<noteq> [] \<and> list_all is_digit k \<and> (length k = 1 \<or> hd k \<noteq> CHR ''0'')
      then Some (nat (digits_val 0 k)) else None)"

text \<open>
  \<open>v[k]\<close> and \<open>v.k\<close>. Reading a property of \<open>undefined\<close> or \<open>null\<close> throws a TypeError;
  a property an object does not have reads as \<open>undefined\<close>. Members inherited from the
  built-in prototypes are functions and objects, outside \<open>jsval\<close>; they read as
  \<open>undefined\<close> here, which coerces to a number exactly as they do (to NaN).
\<close>

definition own_prop :: "(string \<times> jsval) list \<Rightarrow> string \<Rightarrow> jsval" where
  "own_prop kvs k = (case map_of kvs k of Some x \<Rightarrow> x | None \<Rightarrow> Undefined)"

definition get_prop :: "jsval \<Rightarrow> string \<Rightarrow> error + jsval" where
  "get_prop v k =
     (case v of
        Undefined \<Rightarrow> Inl TypeError
      | Null \<Rightarrow> Inl TypeError
      | Obj kvs \<Rightarrow> Inr (own_prop kvs k)
      | Arr xs \<Rightarrow>
          Inr (if k = ''length'' then Num (Finite False (of_nat (length xs)))
               else case index_of_key k of
                      Some i \<Rightarrow> if i < length xs then xs ! i else Undefined
                    | None \<Rightarrow> Undefined)
      | Str cs \<Rightarrow>
          Inr (if k = ''length'' then Num (Finite False (of_nat (length cs)))
               else case index_of_key k of
                      Some i \<Rightarrow> if i < length cs then Str [cs ! i] else Undefined
                    | None \<Rightarrow> Undefined)
      | _ \<Rightarrow> Inr Undefined)"

subsection \<open>JSON text of a value\<close>

text \<open>
  The rate cache keeps \<open>JSON.stringify(rates)\<close> in a text column and reads it back with
  \<open>JSON.parse\<close>. The column is modelled by the value its text denotes, so writing
  applies the loss of \<open>JSON.stringify\<close>: an object member that is \<open>undefined\<close> is
  left out, an array element that is \<open>undefined\<close> and a number that is not finite become
  \<open>null\<close>, and \<open>-0\<close> is printed as \<open>0\<close>. Finite numbers are printed so that they read
  back as the same number.
\<close>

fun json_roundtrip :: "jsval \<Rightarrow> jsval" where
  "json_roundtrip Undefined = Null"
| "json_roundtrip Null = Null"
| "json_roundtrip (Bool b) = Bool b"
| "json_roundtrip (Num n) =
     (case n of Finite s q \<Rightarrow> Num (Finite (s \<and> q \<noteq> 0) q) | _ \<Rightarrow> Null)"
| "json_roundtrip (Str cs) = Str cs"
| "json_roundtrip (Arr xs) = Arr (map json_roundtrip xs)"
| "json_roundtrip (Obj kvs) =
     Obj (map (\<lambda>kv. (fst kv, json_roundtrip (snd kv)))
            (filter (\<lambda>kv. snd kv \<noteq> Undefined) kvs))"

subsection \<open>Arithmetic\<close>

text \<open>
  Division and multiplication of binary64 values: the sign of the result is the
  exclusive or of the signs, the magnitude is the exact quotient or product, rounded.
\<close>

fun js_div :: "jsnum \<Rightarrow> jsnum \<Rightarrow> jsnum" where
  "js_div NaN _ = NaN"
| "js_div _ NaN = NaN"
| "js_div (Infinity s) (Infinity t) = NaN"
| "js_div (Infinity s) (Finite t n) = Infinity (s \<noteq> t)"
| "js_div (Finite s m) (Infinity t) = Finite (s \<noteq> t) 0"
| "js_div (Finite s m) (Finite t n) =
     (if n = 0 then (if m = 0 then NaN else Infinity (s \<noteq> t))
      else round_double (s \<noteq> t) (m / n))"

fun js_mul :: "jsnum \<Rightarrow> jsnum \<Rightarrow> jsnum" where
  "js_mul NaN _ = NaN"
| "js_mul _ NaN = NaN"
| "js_mul (Infinity s) (Infinity t) = Infinity (s \<noteq> t)"
| "js_mul (Infinity s) (Finite t n) = (if n = 0 then NaN else Infinity (s \<noteq> t))"
| "js_mul (Finite s m) (Infinity t) = (if m = 0 then NaN else Infinity (s \<noteq> t))"
| "js_mul (Finite s m) (Finite t n) = round_double (s \<noteq> t) (m * n)"

subsection \<open>Text to number\<close>

text \<open>
  Strings are lists of code points below 256. White space is TAB, LF, VT, FF, CR, SP
  and NBSP.
\<close>

definition is_ws :: "char \<Rightarrow> bool" where
  "is_ws c = ((of_char c :: nat) \<in> {9, 10, 11, 12, 13, 32, 160})"

definition trim_start :: "string \<Rightarrow> string" where
  "trim_start cs = dropWhile is_ws cs"

definition trim :: "string \<Rightarrow> string" where
  "trim cs = rev (dropWhile is_ws (rev (dropWhile is_ws cs)))"

definition sign_prefix :: "string \<Rightarrow> bool \<times> string" where
  "sign_prefix cs =
     (case cs of
        [] \<Rightarrow> (False, [])
      | c # r \<Rightarrow> if c = CHR ''-'' then (True, r)
                 else if c = CHR ''+'' then (False, r) else (False, cs))"

text \<open>\<open>ExponentPart\<close>: \<open>e\<close> or \<open>E\<close>, an optional sign, at least one digit.\<close>

definition exponent_part :: "string \<Rightarrow> (int \<times> string) option" where
  "exponent_part cs =
     (case cs of
        [] \<Rightarrow> None
      | c # r \<Rightarrow>
          if c = CHR ''e'' \<or> c = CHR ''E''
          then (let (neg, r') = sign_prefix r; ds = takeWhile is_digit r'
                in if ds = [] then None
                   else Some ((if neg then - digits_val 0 ds else digits_val 0 ds),
                              dropWhile is_digit r'))
          else None)"

text \<open>
  The longest prefix that is a \<open>StrDecimalLiteral\<close>, with its value and the rest of the
  text: an optional sign, then \<open>Infinity\<close> or digits with an optional fraction and an
  optional exponent. The value is the exact decimal, rounded to binary64.
\<close>

definition str_decimal_literal :: "string \<Rightarrow> (jsnum \<times> string) option" where
  "str_decimal_literal cs =
     (let (neg, cs1) = sign_prefix cs
      in if take 8 cs1 = ''Infinity'' then Some (Infinity neg, drop 8 cs1)
         else let ip = takeWhile is_digit cs1;
                  r1 = dropWhile is_digit cs1;
                  (fp, r2) = (case r1 of
                                [] \<Rightarrow> ([], [])
                              | c # r \<Rightarrow>
                                  if c = CHR ''.''
                                  then (takeWhile is_digit r, dropWhile is_digit r)
                                  else ([], r1))
              in if ip = [] \<and> fp = [] then None
                 else let (ex, r3) = (case exponent_part r2 of
                                        Some (k, r) \<Rightarrow> (k, r)
                                      | None \<Rightarrow> (0, r2))
                      in Some (round_double neg
                                 (of_int (digits_val 0 (ip @ fp)) * 10 powi (ex - int (length fp))),
                               r3))"

definition radix_digit :: "char \<Rightarrow> int option" where
  "radix_digit c =
     (let n = (of_char c :: int)
      in if 48 \<le> n \<and> n \<le> 57 then Some (n - 48)
         else if 97 \<le> n \<and> n \<le> 102 then Some (n - 87)
         else if 65 \<le> n \<and> n \<le> 70 then Some (n - 55)
         else None)"

fun radix_val :: "int \<Rightarrow> int \<Rightarrow> string \<Rightarrow> int option" where
  "radix_val b acc [] = Some acc"
| "radix_val b acc (c # cs) =
     (case radix_digit c of
        None \<Rightarrow> None
      | Some d \<Rightarrow> if d < b then radix_val b (b * acc + d) cs else None)"

text \<open>\<open>0x\<close>, \<open>0o\<close> and \<open>0b\<close> integers, read by \<open>Number\<close> but not by \<open>parseFloat\<close>.\<close>

definition non_decimal_literal :: "string \<Rightarrow> jsnum option" where
  "non_decimal_literal cs =
     (case cs of
        z # p # ds \<Rightarrow>
          if z = CHR ''0'' \<and> ds \<noteq> []
          then (let b = (if p = CHR ''x'' \<or> p = CHR ''X'' then 16
                         else if p = CHR ''o'' \<or> p = CHR ''O'' then 8
                         else if p = CHR ''b'' \<or> p = CHR ''B'' then 2 else (0::int))
                in case radix_val b 0 ds of
                     Some n \<Rightarrow> Some (round_double False (of_int n))
                   | None \<Rightarrow> None)
          else None
      | _ \<Rightarrow> None)"

definition string_to_number :: "string \<Rightarrow> jsnum" where
  "string_to_number cs =
     (let t = trim cs
      in if t = [] then Finite False 0
         else case non_decimal_literal t of
                Some n \<Rightarrow> n
              | None \<Rightarrow>
                  (case str_decimal_literal t of
                     Some (n, r) \<Rightarrow> if r = [] then n else NaN
                   | None \<Rightarrow> NaN))"

definition parse_float_string :: "string \<Rightarrow> jsnum" where
  "parse_float_string cs =
     (case str_decimal_literal (trim_start cs) of
        Some (n, r) \<Rightarrow> n
      | None \<Rightarrow> NaN)"

subsection \<open>Coercions\<close>

text \<open>
  A number printed by \<open>String\<close> reads back as the same number, except that \<open>-0\<close> prints
  as \<open>0\<close>. This is used wherever a number goes through its text: in \<open>parseFloat\<close> of a
  number and in the coercion of an array, whose text joins the texts of its elements
  with commas (\<open>undefined\<close> and \<open>null\<close> elements print as nothing).
\<close>

definition via_text :: "jsnum \<Rightarrow> jsnum" where
  "via_text n = (case n of Finite s q \<Rightarrow> Finite (s \<and> q \<noteq> 0) q | _ \<Rightarrow> n)"

text \<open>
  To coerce an object or an array to a number or to text, JavaScript calls its
  \<open>valueOf\<close> and \<open>toString\<close> methods and takes the first primitive result. A plain
  object inherits both; the inherited \<open>valueOf\<close> gives back the object, so the text
  \<open>[object Object]\<close> of the inherited \<open>toString\<close> decides. A member of its own named
  \<open>valueOf\<close> or \<open>toString\<close> hides the inherited method and, since no value of
  \<open>jsval\<close> can be called, is passed over. With a \<open>toString\<close> of its own the object
  has no method left that yields a primitive: the coercion throws a TypeError. The text
  of an array joins the texts of all its elements, so it throws when the text of any
  element does.
\<close>

fun text_throws :: "jsval \<Rightarrow> bool" where
  "text_throws (Obj kvs) = (map_of kvs ''toString'' \<noteq> None)"
| "text_throws (Arr xs) = list_ex text_throws xs"
| "text_throws v = False"

text \<open>The number a value coerces to, when the coercion does not throw.\<close>

fun number_value :: "jsval \<Rightarrow> jsnum" where
  "number_value Undefined = NaN"
| "number_value Null = Finite False 0"
| "number_value (Bool b) = Finite False (if b then 1 else 0)"
| "number_value (Num n) = n"
| "number_value (Str cs) = string_to_number cs"
| "number_value (Obj kvs) = NaN"
| "number_value (Arr []) = Finite False 0"
| "number_value (Arr [Undefined]) = Finite False 0"
| "number_value (Arr [Null]) = Finite False 0"
| "number_value (Arr [Bool b]) = NaN"
| "number_value (Arr [Num n]) = via_text n"
| "number_value (Arr [Str cs]) = string_to_number cs"
| "number_value (Arr [Obj kvs]) = NaN"
| "number_value (Arr [Arr xs]) = number_value (Arr xs)"
| "number_value (Arr (x # y # zs)) = NaN"

text \<open>\<open>Number(v)\<close>, the coercion applied by \<open>isNaN\<close>, \<open>/\<close> and \<open>*\<close>.\<close>

definition to_number :: "jsval \<Rightarrow> error + jsnum" where
  "to_number v = (if text_throws v then Inl TypeError else Inr (number_value v))"

text \<open>
  What \<open>parseFloat\<close> reads from the text of a value, when taking the text does not
  throw: the text as far as it is a decimal literal.
\<close>

fun float_prefix :: "jsval \<Rightarrow> jsnum" where
  "float_prefix Undefined = NaN"
| "float_prefix Null = NaN"
| "float_prefix (Bool b) = NaN"
| "float_prefix (Num n) = via_text n"
| "float_prefix (Str cs) = parse_float_string cs"
| "float_prefix (Obj kvs) = NaN"
| "float_prefix (Arr []) = NaN"
| "float_prefix (Arr (x # xs)) = float_prefix x"

text \<open>\<open>parseFloat(v)\<close>\<close>

definition parse_float :: "jsval \<Rightarrow> error + jsnum" where
  "parse_float v = (if text_throws v then Inl TypeError else Inr (float_prefix v))"

definition isNaN :: "jsval \<Rightarrow> error + bool" where
  "isNaN v = and_then (to_number v) (\<lambda>n. Inr (n = NaN))"

text \<open>The values for which \<open>!v\<close> is false.\<close>

fun truthy :: "jsval \<Rightarrow> bool" where
  "truthy Undefined = False"
| "truthy Null = False"
| "truthy (Bool b) = b"
| "truthy (Num NaN) = False"
| "truthy (Num (Infinity s)) = True"
| "truthy (Num (Finite s q)) = (q \<noteq> 0)"
| "truthy (Str cs) = (cs \<noteq> [])"
| "truthy (Arr xs) = True"
| "truthy (Obj kvs) = True"

section \<open>The rates service\<close>

subsection \<open>Constants\<close>

definition CACHE_DURATION_MS :: int where
  "CACHE_DURATION_MS = 60 * 60 * 1000"

definition CURRENCIES :: "string list" where
  "CURRENCIES = [''MGA'', ''USD'', ''EUR'', ''CNY'']"

definition FALLBACK_RATES_FROM_USD :: jsval where
  "FALLBACK_RATES_FROM_USD =
     Obj [(''USD'', Num (lit 1)),
          (''EUR'', Num (lit (92 / 100))),
          (''CNY'', Num (lit (724 / 100))),
          (''MGA'', Num (lit 4500))]"

subsection \<open>The database\<close>

text \<open>
  Table \<open>rates_cache\<close> holds at most the row with \<open>id = 1\<close>. \<open>fetched_at\<close> is the ISO
  text of an instant, written by \<open>toISOString\<close> and read by \<open>new Date\<close>: it is modelled
  by the instant, in milliseconds since the epoch.
\<close>

record cache_row =
  base :: string
  rates_json :: jsval
  fetched_at :: int

record history_row =
  row_id :: nat
  from_currency :: string
  to_currency :: string
  amount_col :: jsnum
  result_col :: jsnum
  rate_col :: jsnum
  converted_at :: int

record db =
  rates_cache :: "cache_row option"
  conversion_history :: "history_row list"
  history_seq :: nat

text \<open>
  Every call into the database engine may throw. Whether it does is not decided by the
  service, so each call takes a flag that says so; a call that throws changes nothing.
\<close>

definition select_rates_row :: "bool \<Rightarrow> db \<Rightarrow> error + cache_row option" where
  "select_rates_row fault d = (if fault then Inl StorageError else Inr (rates_cache d))"

definition update_rates_row :: "bool \<Rightarrow> cache_row \<Rightarrow> db \<Rightarrow> error + db" where
  "update_rates_row fault r d =
     (if fault then Inl StorageError
      else Inr (case rates_cache d of
                  Some _ \<Rightarrow> d\<lparr>rates_cache := Some r\<rparr>
                | None \<Rightarrow> d))"

definition insert_rates_row :: "bool \<Rightarrow> cache_row \<Rightarrow> db \<Rightarrow> error + db" where
  "insert_rates_row fault r d =
     (if fault then Inl StorageError
      else case rates_cache d of
             Some _ \<Rightarrow> Inl StorageError
           | None \<Rightarrow> Inr (d\<lparr>rates_cache := Some r\<rparr>))"

text \<open>
  What the environment decides during one call of \<open>getRates\<close>: the three readings of
  the clock, the outcome of the HTTP request, and which database calls throw.
\<close>

datatype fetch_outcome =
    Rejected
  | Response bool nat "jsval option"

record world =
  now_load :: int
  now_save :: int
  now_return :: int
  remote :: fetch_outcome
  load_fault :: bool
  save_select_fault :: bool
  save_write_fault :: bool

text \<open>Neither database call of \<open>saveRatesToCache\<close> throws.\<close>

definition write_succeeds :: "world \<Rightarrow> bool" where
  "write_succeeds w = (\<not> save_select_fault w \<and> \<not> save_write_fault w)"

subsection \<open>Cache helpers\<close>

text \<open>
  Instants and ages are whole milliseconds, far below \<open>2^53\<close>, so the subtraction is
  exact and \<open>Math.floor(ageMs / 60000)\<close> is the integer quotient rounded down, which
  is what \<open>div\<close> computes, also for a negative age.
\<close>

definition saveRatesToCache :: "world \<Rightarrow> jsval \<Rightarrow> db \<Rightarrow> error + db" where
  "saveRatesToCache w rs d =
     (let now = now_save w;
          r = \<lparr>base = ''USD'', rates_json = json_roundtrip rs, fetched_at = now\<rparr>
      in case select_rates_row (save_select_fault w) d of
           Inl e \<Rightarrow> Inl e
         | Inr existing \<Rightarrow>
             (case existing of
                Some _ \<Rightarrow> update_rates_row (save_write_fault w) r d
              | None \<Rightarrow> insert_rates_row (save_write_fault w) r d))"

record cached =
  cached_rates :: jsval
  isFresh :: bool
  cached_fetchedAt :: int
  cached_ageMinutes :: int

definition loadRatesFromCache :: "world \<Rightarrow> db \<Rightarrow> error + cached option" where
  "loadRatesFromCache w d =
     (case select_rates_row (load_fault w) d of
        Inl e \<Rightarrow> Inl e
      | Inr None \<Rightarrow> Inr None
      | Inr (Some row) \<Rightarrow>
          (let ageMs = now_load w - fetched_at row;
               fresh = (ageMs < CACHE_DURATION_MS)
           in Inr (Some \<lparr>cached_rates = rates_json row, isFresh = fresh,
                          cached_fetchedAt = fetched_at row,
                          cached_ageMinutes = ageMs div 60000\<rparr>)))"

subsection \<open>API fetch\<close>

text \<open>
  \<open>Rejected\<close>: the request failed or timed out. \<open>Response ok status body\<close>: a response
  arrived; \<open>body\<close> is \<open>None\<close> when \<open>response.json()\<close> cannot parse it.
\<close>

text \<open>\<open>data.rates.K\<close>\<close>

definition data_rate :: "jsval \<Rightarrow> string \<Rightarrow> error + jsval" where
  "data_rate data k = and_then (get_prop data ''rates'') (\<lambda>rs. get_prop rs k)"

definition fetchLiveRates :: "fetch_outcome \<Rightarrow> error + jsval" where
  "fetchLiveRates out =
     (case out of
        Rejected \<Rightarrow> Inl FetchRejected
      | Response ok status body \<Rightarrow>
          if \<not> ok then Inl (HttpStatus status)
          else (case body of
                  None \<Rightarrow> Inl JsonSyntaxError
                | Some data \<Rightarrow>
                    and_then (data_rate data ''USD'') (\<lambda>usd.
                    and_then (data_rate data ''EUR'') (\<lambda>eur.
                    and_then (data_rate data ''CNY'') (\<lambda>cny.
                    and_then (data_rate data ''MGA'') (\<lambda>mga.
                      Inr (Obj [(''USD'', usd), (''EUR'', eur),
                                (''CNY'', cny), (''MGA'', mga)])))))))"

subsection \<open>Main function\<close>

datatype provenance = Live | Cache | Fallback

record resolved =
  rates :: jsval
  source :: provenance
  fetchedAt :: "int option"
  ageMinutes :: "int option"

text \<open>
  One call of \<open>getRates\<close>: what it returns (\<open>Inl\<close> when the promise rejects), the
  database afterwards, how many times \<open>fetchLiveRates\<close> was called, and the errors
  passed to \<open>console.warn\<close>.
\<close>

record run =
  result :: "error + resolved"
  store :: db
  fetch_calls :: nat
  warned :: "error list"

definition from_cache :: "cached \<Rightarrow> resolved" where
  "from_cache c =
     \<lparr>rates = cached_rates c, source = Cache,
      fetchedAt = Some (cached_fetchedAt c), ageMinutes = Some (cached_ageMinutes c)\<rparr>"

definition on_catch :: "error \<Rightarrow> cached option \<Rightarrow> db \<Rightarrow> run" where
  "on_catch err c d =
     \<lparr>result = Inr (case c of
                      Some c' \<Rightarrow> from_cache c'
                    | None \<Rightarrow> \<lparr>rates = FALLBACK_RATES_FROM_USD, source = Fallback,
                               fetchedAt = None, ageMinutes = None\<rparr>),
      store = d, fetch_calls = 1, warned = [err]\<rparr>"

definition try_live :: "world \<Rightarrow> cached option \<Rightarrow> db \<Rightarrow> run" where
  "try_live w c d =
     (case fetchLiveRates (remote w) of
        Inl err \<Rightarrow> on_catch err c d
      | Inr rs \<Rightarrow>
          (case saveRatesToCache w rs d of
             Inl err \<Rightarrow> on_catch err c d
           | Inr d' \<Rightarrow>
               \<lparr>result = Inr \<lparr>rates = rs, source = Live,
                               fetchedAt = Some (now_return w), ageMinutes = Some 0\<rparr>,
                store = d', fetch_calls = 1, warned = []\<rparr>))"

definition getRates :: "world \<Rightarrow> db \<Rightarrow> run" where
  "getRates w d =
     (case loadRatesFromCache w d of
        Inl e \<Rightarrow> \<lparr>result = Inl e, store = d, fetch_calls = 0, warned = []\<rparr>
      | Inr c \<Rightarrow>
          (case c of
             Some c' \<Rightarrow>
               if isFresh c'
               then \<lparr>result = Inr (from_cache c'), store = d, fetch_calls = 0, warned = []\<rparr>
               else try_live w c d
           | None \<Rightarrow> try_live w c d))"

subsection \<open>History helpers\<close>

text \<open>
  The \<open>INSERT\<close> assigns the next identifier and the current time. SQLite binds a NaN
  as \<open>NULL\<close>, which the \<open>NOT NULL\<close> columns refuse: the call throws. The \<open>SELECT\<close> orders
  by \<open>converted_at\<close> descending and keeps the first \<open>limit\<close> rows, all of them when
  \<open>limit\<close> is negative. SQL leaves the order of rows of equal time open; here they
  stay in the order of insertion.
\<close>

definition insert_history ::
  "bool \<Rightarrow> int \<Rightarrow> string \<Rightarrow> string \<Rightarrow> jsnum \<Rightarrow> jsnum \<Rightarrow> jsnum \<Rightarrow> db \<Rightarrow> error + db" where
  "insert_history fault now f t a r x d =
     (if fault \<or> a = NaN \<or> r = NaN \<or> x = NaN then Inl StorageError
      else Inr (d\<lparr>conversion_history :=
                    conversion_history d @
                      [\<lparr>row_id = Suc (history_seq d), from_currency = f, to_currency = t,
                        amount_col = a, result_col = r, rate_col = x, converted_at = now\<rparr>],
                  history_seq := Suc (history_seq d)\<rparr>))"

definition select_history :: "bool \<Rightarrow> int \<Rightarrow> db \<Rightarrow> error + history_row list" where
  "select_history fault limit d =
     (if fault then Inl StorageError
      else let sorted_rows = sort_key (\<lambda>r. - converted_at r) (conversion_history d)
           in Inr (if limit < 0 then sorted_rows else take (nat limit) sorted_rows))"

definition delete_history :: "bool \<Rightarrow> db \<Rightarrow> error + db" where
  "delete_history fault d =
     (if fault then Inl StorageError else Inr (d\<lparr>conversion_history := []\<rparr>))"

text \<open>
  Each helper returns what its caller sees (\<open>Inl\<close>: the helper threw) and the database
  afterwards.
\<close>

definition saveToHistory ::
  "bool \<Rightarrow> int \<Rightarrow> string \<Rightarrow> string \<Rightarrow> jsnum \<Rightarrow> jsnum \<Rightarrow> jsnum \<Rightarrow> db \<Rightarrow> (error + unit) \<times> db" where
  "saveToHistory fault now f t a r x d =
     (case insert_history fault now f t a r x d of
        Inr d' \<Rightarrow> (Inr (), d')
      | Inl e \<Rightarrow> (Inr (), d))"

definition getHistory :: "bool \<Rightarrow> int option \<Rightarrow> db \<Rightarrow> error + history_row list" where
  "getHistory fault limit d =
     (case select_history fault (case limit of Some n \<Rightarrow> n | None \<Rightarrow> 30) d of
        Inr rows \<Rightarrow> Inr rows
      | Inl e \<Rightarrow> Inr [])"

definition clearHistory :: "bool \<Rightarrow> db \<Rightarrow> (error + unit) \<times> db" where
  "clearHistory fault d =
     (case delete_history fault d of
        Inr d' \<Rightarrow> (Inr (), d')
      | Inl e \<Rightarrow> (Inl e, d))"

subsection \<open>Conversion logic\<close>

text \<open>
  \<open>!rates\<close> is decided first; only then is \<open>isNaN(amount)\<close> evaluated, and
  \<open>amount === ''\<close>, which holds for the empty string only. The operands of \<open>/\<close> and
  \<open>*\<close> are coerced to numbers. The result is \<open>Inl\<close> when a coercion or a property read
  throws.
\<close>

definition convert :: "jsval \<Rightarrow> string \<Rightarrow> string \<Rightarrow> jsval \<Rightarrow> error + jsnum" where
  "convert amount fromCurrency toCurrency rs =
     (if \<not> truthy rs then Inr (Finite False 0)
      else and_then (isNaN amount) (\<lambda>nan.
        if nan \<or> amount = Str [] then Inr (Finite False 0)
        else and_then (parse_float amount) (\<lambda>parsed.
             and_then (get_prop rs fromCurrency) (\<lambda>rateFrom.
             and_then (to_number rateFrom) (\<lambda>rf.
               let amountUSD = js_div parsed rf
               in and_then (get_prop rs toCurrency) (\<lambda>rateTo.
                  and_then (to_number rateTo) (\<lambda>rt.
                    Inr (js_mul amountUSD rt))))))))"

text \<open>A rate mapping: every entry of the object is a number.\<close>

definition rate_mapping :: "(string \<times> jsval) list \<Rightarrow> bool" where
  "rate_mapping kvs = list_all (\<lambda>kv. case snd kv of Num n \<Rightarrow> True | _ \<Rightarrow> False) kvs"

section \<open>Scenarios\<close>

text \<open>
  A provider response carrying more currencies than the service supports, the object
  \<open>fetchLiveRates\<close> extracts from it, and worlds in which the request succeeds or fails
  and no database call throws.
\<close>

definition provider_body :: jsval where
  "provider_body =
     Obj [(''result'', Str ''success''),
          (''base_code'', Str ''USD''),
          (''rates'', Obj [(''USD'', Num (lit 1)),
                           (''AED'', Num (lit (36725 / 10000))),
                           (''CNY'', Num (lit (72 / 10))),
                           (''EUR'', Num (lit (9 / 10))),
                           (''MGA'', Num (lit 4400))])]"

definition provider_rates :: jsval where
  "provider_rates =
     Obj [(''USD'', Num (lit 1)),
          (''EUR'', Num (lit (9 / 10))),
          (''CNY'', Num (lit (72 / 10))),
          (''MGA'', Num (lit 4400))]"

definition online :: "int \<Rightarrow> world" where
  "online t =
     \<lparr>now_load = t, now_save = t + 1, now_return = t + 2,
      remote = Response True 200 (Some provider_body),
      load_fault = False, save_select_fault = False, save_write_fault = False\<rparr>"

definition offline :: "int \<Rightarrow> world" where
  "offline t = (online t)\<lparr>remote := Rejected\<rparr>"

definition empty_db :: db where
  "empty_db = \<lparr>rates_cache = None, conversion_history = [], history_seq = 0\<rparr>"

definition snapshot_db :: "int \<Rightarrow> db" where
  "snapshot_db t =
     \<lparr>rates_cache =
        Some \<lparr>base = ''USD'', rates_json = FALLBACK_RATES_FROM_USD, fetched_at = t\<rparr>,
      conversion_history = [], history_seq = 0\<rparr>"

section \<open>Properties of the arithmetic\<close>

subsection \<open>Powers of two and the binary exponent\<close>

lemma pow2_powi: "pow2 e = 2 powi e"
  by (simp add: pow2_def power_int_def inverse_eq_divide power_one_over)

lemma pow2_pos: "0 < pow2 e"
  by (simp add: pow2_powi)

lemma pow2_add: "pow2 (a + b) = pow2 a * pow2 b"
  by (simp add: pow2_powi power_int_add)

lemma pow2_mono: "a \<le> b \<Longrightarrow> pow2 a \<le> pow2 b"
  by (simp add: pow2_powi power_int_increasing)

lemma bitlen_bounds:
  "0 < n \<Longrightarrow> 1 \<le> bitlen n \<and> 2 ^ nat (bitlen n - 1) \<le> n \<and> n < 2 ^ nat (bitlen n)"
proof (induction n rule: bitlen.induct)
  case (1 n)
  show ?case
  proof (cases "n = 1")
    case True
    then show ?thesis
      by (simp add: bitlen.simps [of 1] bitlen.simps [of 0])
  next
    case False
    with "1.prems" have h: "0 < n div 2" by simp
    from "1.IH" [OF _ h] "1.prems"
    have ih: "1 \<le> bitlen (n div 2)" "2 ^ nat (bitlen (n div 2) - 1) \<le> n div 2"
      "n div 2 < 2 ^ nat (bitlen (n div 2))"
      by simp_all
    have eq: "bitlen n = 1 + bitlen (n div 2)"
      using "1.prems" by (simp add: bitlen.simps [of n])
    have p: "nat (bitlen n - 1) = Suc (nat (bitlen (n div 2) - 1))"
      using ih(1) eq by simp
    have p': "nat (bitlen n) = Suc (nat (bitlen (n div 2)))"
      using ih(1) eq by simp
    show ?thesis
      using ih eq p p' by simp linarith
  qed
qed


lemma ilog2_bounds:
  assumes "0 < q"
  shows "pow2 (ilog2 q) \<le> q \<and> q < pow2 (ilog2 q + 1)"
proof (cases "1 \<le> q")
  case True
  define n where "n = \<lfloor>q\<rfloor>"
  have n: "1 \<le> n" using True by (simp add: n_def le_floor_iff)
  then have b: "1 \<le> bitlen n" "2 ^ nat (bitlen n - 1) \<le> n" "n < 2 ^ nat (bitlen n)"
    using bitlen_bounds [of n] by simp_all
  have e: "ilog2 q = bitlen n - 1" using True by (simp add: ilog2_def n_def)
  have lo: "(2::rat) ^ nat (bitlen n - 1) \<le> of_int n"
    using b(2) of_int_le_iff [of "2 ^ nat (bitlen n - 1)" n, where ?'a = rat] by simp
  have "n + 1 \<le> 2 ^ nat (bitlen n)" using b(3) by simp
  then have hi: "(of_int n + 1 :: rat) \<le> 2 ^ nat (bitlen n)"
    using of_int_le_iff [of "n + 1" "2 ^ nat (bitlen n)", where ?'a = rat] by simp
  have q1: "of_int n \<le> q" unfolding n_def by linarith
  have q2: "q < of_int n + 1" unfolding n_def by linarith
  have p1: "pow2 (ilog2 q) = 2 ^ nat (bitlen n - 1)" using b(1) e by (simp add: pow2_def)
  have p2: "pow2 (ilog2 q + 1) = 2 ^ nat (bitlen n)" using b(1) e by (simp add: pow2_def)
  show ?thesis using lo hi q1 q2 p1 p2 by linarith
next
  case False
  define c where "c = \<lceil>1 / q\<rceil>"
  define m where "m = c - 1"
  have iq: "1 < 1 / q" using False assms by simp
  have c1: "1 / q \<le> of_int c" by (simp add: c_def)
  have c2: "of_int c - 1 < 1 / q" unfolding c_def by linarith
  have "1 < (of_int c :: rat)" using iq c1 by linarith
  then have m: "1 \<le> m" by (simp add: m_def)
  then have b: "1 \<le> bitlen m" "2 ^ nat (bitlen m - 1) \<le> m" "m < 2 ^ nat (bitlen m)"
    using bitlen_bounds [of m] by simp_all
  have e: "ilog2 q = - bitlen m" using False by (simp add: ilog2_def m_def c_def)
  have lo: "(2::rat) ^ nat (bitlen m - 1) \<le> of_int m"
    using b(2) of_int_le_iff [of "2 ^ nat (bitlen m - 1)" m, where ?'a = rat] by simp
  have "m + 1 \<le> 2 ^ nat (bitlen m)" using b(3) by simp
  then have hi: "(of_int m + 1 :: rat) \<le> 2 ^ nat (bitlen m)"
    using of_int_le_iff [of "m + 1" "2 ^ nat (bitlen m)", where ?'a = rat] by simp
  have mc: "(of_int m :: rat) = of_int c - 1" by (simp add: m_def)
  have u: "1 / q \<le> 2 ^ nat (bitlen m)" using c1 hi mc by linarith
  have l: "2 ^ nat (bitlen m - 1) < 1 / q" using c2 lo mc by linarith
  have p1: "pow2 (ilog2 q) = 1 / 2 ^ nat (bitlen m)" using b(1) e by (simp add: pow2_def)
  have p2: "pow2 (ilog2 q + 1) = 1 / 2 ^ nat (bitlen m - 1)"
    using b(1) e by (auto simp add: pow2_def nat_diff_distrib)
  have r1: "1 / 2 ^ nat (bitlen m) \<le> q"
    using u assms by (simp add: field_simps)
  have r2: "q < 1 / 2 ^ nat (bitlen m - 1)"
    using l assms by (simp add: field_simps)
  show ?thesis using p1 p2 r1 r2 by simp
qed

lemma ilog2_unique:
  assumes "pow2 e \<le> q" and "q < pow2 (e + 1)"
  shows "ilog2 q = e"
proof -
  have q: "0 < q" using assms(1) pow2_pos [of e] by linarith
  note b = ilog2_bounds [OF q]
  have "\<not> ilog2 q < e"
  proof
    assume "ilog2 q < e"
    then have "pow2 (ilog2 q + 1) \<le> pow2 e" by (simp add: pow2_mono)
    with b assms show False by linarith
  qed
  moreover have "\<not> e < ilog2 q"
  proof
    assume "e < ilog2 q"
    then have "pow2 (e + 1) \<le> pow2 (ilog2 q)" by (simp add: pow2_mono)
    with b assms show False by linarith
  qed
  ultimately show ?thesis by simp
qed

subsection \<open>Rounding\<close>

lemma round_half_even_error: "\<bar>of_int (round_half_even t) - t\<bar> \<le> 1 / 2"
proof -
  define f where "f = \<lfloor>t\<rfloor>"
  have f: "of_int f \<le> t" "t < of_int f + 1" unfolding f_def by linarith+
  consider "t - of_int f < 1 / 2" | "1 / 2 < t - of_int f" | "t - of_int f = 1 / 2"
    by linarith
  then show ?thesis
  proof cases
    case 1
    then have "round_half_even t = f" by (simp add: round_half_even_def f_def)
    with 1 f show ?thesis by simp
  next
    case 2
    then have "round_half_even t = f + 1" by (simp add: round_half_even_def f_def)
    with 2 f show ?thesis by simp
  next
    case 3
    then have "round_half_even t = f \<or> round_half_even t = f + 1"
      by (simp add: round_half_even_def f_def Let_def)
    with 3 f show ?thesis by auto
  qed
qed

lemma round_half_even_unique:
  assumes "of_int n - 1 / 2 < t" and "t < of_int n + 1 / 2"
  shows "round_half_even t = n"
proof -
  have e: "\<bar>of_int (round_half_even t) - t\<bar> \<le> 1 / 2" by (rule round_half_even_error)
  have "\<bar>(of_int (round_half_even t) :: rat) - of_int n\<bar> < 1"
    using e assms by linarith
  then have "\<bar>(of_int (round_half_even t - n) :: rat)\<bar> < 1" by simp
  then have "\<bar>round_half_even t - n\<bar> < 1"
    using of_int_less_iff [of "\<bar>round_half_even t - n\<bar>" 1, where ?'a = rat] by simp
  then show ?thesis by simp
qed


text \<open>
  In the normal range and away from a tie, the rounded value is fixed by the exponent
  \<open>e\<close> and the integer \<open>n\<close> nearest to the scaled magnitude.
\<close>

lemma round_double_normal:
  assumes "pow2 e \<le> q" and "q < pow2 (e + 1)" and "- 1022 \<le> e"
    and "of_int n - 1 / 2 < q / pow2 (e - 52)" and "q / pow2 (e - 52) < of_int n + 1 / 2"
    and "of_int n * pow2 (e - 52) < pow2 1024"
  shows "round_double s q = Finite s (of_int n * pow2 (e - 52))"
proof -
  have q: "q \<noteq> 0" using assms(1) pow2_pos [of e] by linarith
  have e: "ilog2 q = e" using assms(1,2) by (rule ilog2_unique)
  have m: "max e (- 1022) = e" using assms(3) by simp
  have n: "round_half_even (q / pow2 (e - 52)) = n"
    using assms(4,5) by (rule round_half_even_unique)
  show ?thesis
    using q assms(6) by (simp add: round_double_def e m n Let_def)
qed

text \<open>In the normal range rounding moves a magnitude by at most \<open>2^-53\<close> of itself.\<close>

lemma round_double_error:
  assumes "pow2 (- 1022) \<le> q" and "q \<le> pow2 1023"
  shows "\<exists>v. round_double s q = Finite s v \<and> \<bar>v - q\<bar> \<le> q / 2 ^ 53"
proof -
  define e where "e = ilog2 q"
  define ulp where "ulp = pow2 (e - 52)"
  define n where "n = round_half_even (q / ulp)"
  define v where "v = of_int n * ulp"
  have q: "0 < q" using assms(1) pow2_pos [of "- 1022"] by linarith
  have b: "pow2 e \<le> q" "q < pow2 (e + 1)"
    using ilog2_bounds [OF q] by (simp_all add: e_def)
  have lo: "- 1022 \<le> e"
  proof (rule ccontr)
    assume "\<not> - 1022 \<le> e"
    then have "pow2 (e + 1) \<le> pow2 (- 1022)" by (simp add: pow2_mono)
    with b assms show False by linarith
  qed
  have u: "0 < ulp" by (simp add: ulp_def pow2_pos)
  have "pow2 e = pow2 (e - 52) * pow2 52" using pow2_add [of "e - 52" 52] by simp
  then have pe: "pow2 e = ulp * 2 ^ 52" by (simp add: ulp_def pow2_def)
  have "\<bar>of_int n - q / ulp\<bar> \<le> 1 / 2"
    unfolding n_def by (rule round_half_even_error)
  then have "\<bar>of_int n - q / ulp\<bar> * ulp \<le> 1 / 2 * ulp"
    using u by (simp only: mult_le_cancel_right_pos)
  moreover have "\<bar>of_int n - q / ulp\<bar> * ulp = \<bar>v - q\<bar>"
  proof -
    have "\<bar>of_int n - q / ulp\<bar> * ulp = \<bar>of_int n - q / ulp\<bar> * \<bar>ulp\<bar>"
      using u by simp
    also have "\<dots> = \<bar>(of_int n - q / ulp) * ulp\<bar>" by (simp only: abs_mult)
    also have "(of_int n - q / ulp) * ulp = v - q"
      using u by (simp add: v_def left_diff_distrib)
    finally show ?thesis .
  qed
  ultimately have d: "\<bar>v - q\<bar> \<le> ulp / 2" by simp
  have "ulp / 2 = pow2 e / 2 ^ 53" by (simp add: pe)
  also have "\<dots> \<le> q / 2 ^ 53" using b(1) by (simp add: divide_right_mono)
  finally have h: "ulp / 2 \<le> q / 2 ^ 53" .
  have err: "\<bar>v - q\<bar> \<le> q / 2 ^ 53" using d h by linarith
  have "v \<le> q + q / 2 ^ 53" using err by linarith
  also have "\<dots> \<le> pow2 1023 + pow2 1023 / 2 ^ 53"
    using assms(2) by (simp add: add_mono divide_right_mono)
  also have "\<dots> < pow2 1024" by (simp add: pow2_def)
  finally have ov: "\<not> pow2 1024 \<le> v" by simp
  have m: "max (ilog2 q) (- 1022) = e" using lo by (simp add: e_def)
  have "round_double s q = Finite s v"
    using q ov by (simp add: round_double_def m Let_def v_def n_def ulp_def)
  with err show ?thesis by blast
qed

text \<open>A positive number of the normal range is stored in the cache as it is.\<close>

lemma json_roundtrip_lit:
  assumes "pow2 (- 1022) \<le> q" and "q \<le> pow2 1023"
  shows "json_roundtrip (Num (lit q)) = Num (lit q)"
proof -
  have q: "0 < q" using assms(1) pow2_pos [of "- 1022"] by linarith
  obtain v where "round_double False q = Finite False v"
    using round_double_error [OF assms] by blast
  with q show ?thesis by (simp add: lit_def)
qed

section \<open>Properties of the rate resolution and of the history helpers\<close>

lemmas getRates_defs = getRates_def try_live_def on_catch_def from_cache_def
  loadRatesFromCache_def saveRatesToCache_def select_rates_row_def
  update_rates_row_def insert_rates_row_def write_succeeds_def CACHE_DURATION_MS_def

lemmas fetch_defs = fetchLiveRates_def data_rate_def and_then_def get_prop_def own_prop_def

lemmas scenario_defs = online_def offline_def empty_db_def snapshot_db_def
  provider_body_def provider_rates_def

lemma fetch_online: "fetchLiveRates (remote (online t)) = Inr provider_rates"
  by (simp add: fetch_defs scenario_defs)

lemma fetch_offline: "fetchLiveRates (remote (offline t)) = Inl FetchRejected"
  by (simp add: fetch_defs scenario_defs)

lemma provider_rates_stored: "json_roundtrip provider_rates = provider_rates"
proof -
  have usd: "json_roundtrip (Num (lit 1)) = Num (lit 1)"
    by (rule json_roundtrip_lit) (simp_all add: pow2_def)
  have eur: "json_roundtrip (Num (lit (9 / 10))) = Num (lit (9 / 10))"
    by (rule json_roundtrip_lit) (simp_all add: pow2_def)
  have cny: "json_roundtrip (Num (lit (36 / 5))) = Num (lit (36 / 5))"
    by (rule json_roundtrip_lit) (simp_all add: pow2_def)
  have mga: "json_roundtrip (Num (lit 4400)) = Num (lit 4400)"
    by (rule json_roundtrip_lit) (simp_all add: pow2_def)
  show ?thesis
    by (simp add: provider_rates_def usd eur cny mga del: json_roundtrip.simps(4))
qed

text \<open>
  C1, as stated, fails at the empty database. When the read of the cache throws,
  \<open>getRates\<close> rejects without calling \<open>fetchLiveRates\<close>. When the fetch succeeds and a
  database call of the write throws, the result is the built-in table with provenance
  \<open>fallback\<close> and nothing is persisted.
\<close>

theorem getRates_empty_store_counterexample:
  "rates_cache empty_db = None \<and>
   getRates ((online 1700000000000)\<lparr>load_fault := True\<rparr>) empty_db =
     \<lparr>result = Inl StorageError, store = empty_db, fetch_calls = 0, warned = []\<rparr> \<and>
   fetchLiveRates (remote ((online 1700000000000)\<lparr>save_select_fault := True\<rparr>)) =
     Inr provider_rates \<and>
   getRates ((online 1700000000000)\<lparr>save_select_fault := True\<rparr>) empty_db =
     \<lparr>result = Inr \<lparr>rates = FALLBACK_RATES_FROM_USD, source = Fallback,
                    fetchedAt = None, ageMinutes = None\<rparr>,
      store = empty_db, fetch_calls = 1, warned = [StorageError]\<rparr>"
  by (simp add: getRates_defs fetch_defs scenario_defs)

text \<open>
  C1, amended. With no persisted snapshot and a read of the cache that succeeds,
  \<open>getRates\<close> calls \<open>fetchLiveRates\<close> exactly once. If the fetch succeeds and the write
  to the cache succeeds, the result is the fetched rates with provenance \<open>live\<close> and the
  snapshot is persisted. If the fetch fails, the result is the built-in table with
  provenance \<open>fallback\<close>, \<open>fetchedAt\<close> and \<open>ageMinutes\<close> absent, and the database is
  unchanged, so no snapshot is persisted.
\<close>

theorem getRates_empty_store:
  assumes "rates_cache d = None" and "\<not> load_fault w"
  shows "fetch_calls (getRates w d) = 1 \<and>
    (\<forall>rs. fetchLiveRates (remote w) = Inr rs \<and> write_succeeds w \<longrightarrow>
       result (getRates w d) =
         Inr \<lparr>rates = rs, source = Live, fetchedAt = Some (now_return w), ageMinutes = Some 0\<rparr> \<and>
       rates_cache (store (getRates w d)) =
         Some \<lparr>base = ''USD'', rates_json = json_roundtrip rs, fetched_at = now_save w\<rparr>) \<and>
    (\<forall>e. fetchLiveRates (remote w) = Inl e \<longrightarrow>
       result (getRates w d) =
         Inr \<lparr>rates = FALLBACK_RATES_FROM_USD, source = Fallback,
              fetchedAt = None, ageMinutes = None\<rparr> \<and>
       store (getRates w d) = d)"
proof (cases "fetchLiveRates (remote w)")
  case (Inl e)
  with assms show ?thesis by (simp add: getRates_defs Let_def)
next
  case (Inr rs)
  with assms show ?thesis
    by (cases "saveRatesToCache w rs d")
       (auto simp add: getRates_def try_live_def on_catch_def loadRatesFromCache_def
          saveRatesToCache_def select_rates_row_def insert_rates_row_def
          write_succeeds_def Let_def)
qed

text \<open>C1 amended, at the empty database, once online and once offline.\<close>

theorem getRates_empty_store_witness:
  "rates_cache empty_db = None \<and> \<not> load_fault (online 1700000000000) \<and>
   \<not> load_fault (offline 1700000000000) \<and>
   fetchLiveRates (remote (online 1700000000000)) = Inr provider_rates \<and>
   write_succeeds (online 1700000000000) \<and>
   fetchLiveRates (remote (offline 1700000000000)) = Inl FetchRejected \<and>
   fetch_calls (getRates (online 1700000000000) empty_db) = 1 \<and>
   result (getRates (online 1700000000000) empty_db) =
     Inr \<lparr>rates = provider_rates, source = Live,
          fetchedAt = Some 1700000000002, ageMinutes = Some 0\<rparr> \<and>
   rates_cache (store (getRates (online 1700000000000) empty_db)) =
     Some \<lparr>base = ''USD'', rates_json = provider_rates,
           fetched_at = 1700000000001\<rparr> \<and>
   fetch_calls (getRates (offline 1700000000000) empty_db) = 1 \<and>
   result (getRates (offline 1700000000000) empty_db) =
     Inr \<lparr>rates = FALLBACK_RATES_FROM_USD, source = Fallback,
          fetchedAt = None, ageMinutes = None\<rparr> \<and>
   store (getRates (offline 1700000000000) empty_db) = empty_db"
proof -
  have e: "rates_cache empty_db = None"
    by (simp add: empty_db_def)
  have on: "\<not> load_fault (online 1700000000000)"
    by (simp add: online_def)
  have off: "\<not> load_fault (offline 1700000000000)"
    by (simp add: online_def offline_def)
  have ws: "write_succeeds (online 1700000000000)"
    by (simp add: write_succeeds_def online_def)
  show ?thesis
    using e on off ws getRates_empty_store [OF e on] getRates_empty_store [OF e off]
    by (simp add: fetch_online fetch_offline provider_rates_stored) (simp add: online_def)
qed

text \<open>
  C2. When a snapshot is persisted and \<open>now - fetchedAt\<close> is less than one hour,
  \<open>getRates\<close> returns the snapshot's rates with provenance \<open>cache\<close> and its age in whole
  minutes, calls \<open>fetchLiveRates\<close> zero times and leaves the database as it was.
\<close>

theorem getRates_fresh_cache:
  assumes "rates_cache d = Some row" and "now_load w - fetched_at row < 60 * 60 * 1000"
    and "\<not> load_fault w"
  shows "getRates w d =
     \<lparr>result = Inr \<lparr>rates = rates_json row, source = Cache,
                    fetchedAt = Some (fetched_at row),
                    ageMinutes = Some ((now_load w - fetched_at row) div 60000)\<rparr>,
      store = d, fetch_calls = 0, warned = []\<rparr>"
  using assms by (simp add: getRates_defs Let_def)

text \<open>C2 for a snapshot taken 30 minutes ago.\<close>

theorem getRates_fresh_cache_witness:
  "rates_cache (snapshot_db (1700000000000 - 1800000)) =
     Some \<lparr>base = ''USD'', rates_json = FALLBACK_RATES_FROM_USD,
           fetched_at = 1699998200000\<rparr> \<and>
   getRates (offline 1700000000000) (snapshot_db (1700000000000 - 1800000)) =
     \<lparr>result = Inr \<lparr>rates = FALLBACK_RATES_FROM_USD, source = Cache,
                    fetchedAt = Some 1699998200000, ageMinutes = Some 30\<rparr>,
      store = snapshot_db (1700000000000 - 1800000), fetch_calls = 0, warned = []\<rparr>"
proof -
  let ?row = "\<lparr>base = ''USD'', rates_json = FALLBACK_RATES_FROM_USD,
                fetched_at = 1699998200000\<rparr>"
  have r: "rates_cache (snapshot_db (1700000000000 - 1800000)) = Some ?row"
    by (simp add: snapshot_db_def)
  have a: "now_load (offline 1700000000000) - fetched_at ?row < 60 * 60 * 1000"
    by (simp add: online_def offline_def)
  have f: "\<not> load_fault (offline 1700000000000)"
    by (simp add: online_def offline_def)
  show ?thesis
    using r getRates_fresh_cache [OF r a f] by (simp add: online_def offline_def)
qed

text \<open>
  C3. When the persisted snapshot is at least one hour old and the fetch fails,
  \<open>getRates\<close> returns the stale snapshot's rates with provenance \<open>cache\<close> and the
  elapsed age in minutes, and the database is not modified.
\<close>

theorem getRates_stale_fetch_fails:
  assumes "rates_cache d = Some row" and "60 * 60 * 1000 \<le> now_load w - fetched_at row"
    and "\<not> load_fault w" and "fetchLiveRates (remote w) = Inl e"
  shows "result (getRates w d) =
           Inr \<lparr>rates = rates_json row, source = Cache,
                fetchedAt = Some (fetched_at row),
                ageMinutes = Some ((now_load w - fetched_at row) div 60000)\<rparr> \<and>
         store (getRates w d) = d \<and> fetch_calls (getRates w d) = 1"
  using assms by (simp add: getRates_defs Let_def)

text \<open>C3 for a snapshot taken 90 minutes ago, offline.\<close>

theorem getRates_stale_fetch_fails_witness:
  "rates_cache (snapshot_db (1700000000000 - 5400000)) =
     Some \<lparr>base = ''USD'', rates_json = FALLBACK_RATES_FROM_USD,
           fetched_at = 1699994600000\<rparr> \<and>
   fetchLiveRates (remote (offline 1700000000000)) = Inl FetchRejected \<and>
   result (getRates (offline 1700000000000) (snapshot_db (1700000000000 - 5400000))) =
     Inr \<lparr>rates = FALLBACK_RATES_FROM_USD, source = Cache,
          fetchedAt = Some 1699994600000, ageMinutes = Some 90\<rparr> \<and>
   store (getRates (offline 1700000000000) (snapshot_db (1700000000000 - 5400000))) =
     snapshot_db (1700000000000 - 5400000)"
proof -
  let ?row = "\<lparr>base = ''USD'', rates_json = FALLBACK_RATES_FROM_USD,
                fetched_at = 1699994600000\<rparr>"
  have r: "rates_cache (snapshot_db (1700000000000 - 5400000)) = Some ?row"
    by (simp add: snapshot_db_def)
  have a: "60 * 60 * 1000 \<le> now_load (offline 1700000000000) - fetched_at ?row"
    by (simp add: online_def offline_def)
  have f: "\<not> load_fault (offline 1700000000000)"
    by (simp add: online_def offline_def)
  show ?thesis
    using r getRates_stale_fetch_fails [OF r a f fetch_offline]
    by (simp add: fetch_offline) (simp add: online_def offline_def)
qed

text \<open>
  C4, as stated, fails: with a snapshot taken 90 minutes ago, a fetch that succeeds and
  an \<open>UPDATE\<close> that throws, \<open>getRates\<close> returns the old rates with provenance
  \<open>cache\<close>, and the old row stays in the database.
\<close>

theorem getRates_stale_fetch_succeeds_counterexample:
  "fetchLiveRates (remote ((online 1700000000000)\<lparr>save_write_fault := True\<rparr>)) =
     Inr provider_rates \<and>
   getRates ((online 1700000000000)\<lparr>save_write_fault := True\<rparr>)
       (snapshot_db 1699994600000) =
     \<lparr>result = Inr \<lparr>rates = FALLBACK_RATES_FROM_USD, source = Cache,
                    fetchedAt = Some 1699994600000, ageMinutes = Some 90\<rparr>,
      store = snapshot_db 1699994600000, fetch_calls = 1, warned = [StorageError]\<rparr>"
  by (simp add: getRates_defs fetch_defs scenario_defs)

text \<open>
  C4, amended. When the persisted snapshot is at least one hour old, the fetch succeeds
  and the write to the cache succeeds, \<open>getRates\<close> returns the fetched rates with
  provenance \<open>live\<close> and \<open>ageMinutes = 0\<close>, and afterwards the cache row is the new
  snapshot alone: base, rates and \<open>fetched_at\<close> (the time of the write) are all
  replaced, nothing of the old row is kept.
\<close>

theorem getRates_stale_fetch_succeeds:
  assumes "rates_cache d = Some row" and "60 * 60 * 1000 \<le> now_load w - fetched_at row"
    and "\<not> load_fault w" and "fetchLiveRates (remote w) = Inr rs"
    and "write_succeeds w"
  shows "result (getRates w d) =
           Inr \<lparr>rates = rs, source = Live,
                fetchedAt = Some (now_return w), ageMinutes = Some 0\<rparr> \<and>
         store (getRates w d) =
           d\<lparr>rates_cache :=
               Some \<lparr>base = ''USD'', rates_json = json_roundtrip rs, fetched_at = now_save w\<rparr>\<rparr>"
  using assms by (simp add: getRates_defs Let_def)

text \<open>C4 amended, for a snapshot taken 90 minutes ago, online.\<close>

theorem getRates_stale_fetch_succeeds_witness:
  "rates_cache (snapshot_db (1700000000000 - 5400000)) =
     Some \<lparr>base = ''USD'', rates_json = FALLBACK_RATES_FROM_USD,
           fetched_at = 1699994600000\<rparr> \<and>
   \<not> load_fault (online 1700000000000) \<and> write_succeeds (online 1700000000000) \<and>
   fetchLiveRates (remote (online 1700000000000)) = Inr provider_rates \<and>
   result (getRates (online 1700000000000) (snapshot_db (1700000000000 - 5400000))) =
     Inr \<lparr>rates = provider_rates, source = Live,
          fetchedAt = Some 1700000000002, ageMinutes = Some 0\<rparr> \<and>
   store (getRates (online 1700000000000) (snapshot_db (1700000000000 - 5400000))) =
     \<lparr>rates_cache =
        Some \<lparr>base = ''USD'', rates_json = provider_rates,
              fetched_at = 1700000000001\<rparr>,
      conversion_history = [], history_seq = 0\<rparr>"
proof -
  let ?row = "\<lparr>base = ''USD'', rates_json = FALLBACK_RATES_FROM_USD,
                fetched_at = 1699994600000\<rparr>"
  have r: "rates_cache (snapshot_db (1700000000000 - 5400000)) = Some ?row"
    by (simp add: snapshot_db_def)
  have a: "60 * 60 * 1000 \<le> now_load (online 1700000000000) - fetched_at ?row"
    by (simp add: online_def)
  have on: "\<not> load_fault (online 1700000000000)"
    by (simp add: online_def)
  have ws: "write_succeeds (online 1700000000000)"
    by (simp add: write_succeeds_def online_def)
  show ?thesis
    using r on ws getRates_stale_fetch_succeeds [OF r a on fetch_online ws]
    by (simp add: fetch_online provider_rates_stored) (simp add: online_def snapshot_db_def)
qed

text \<open>
  C5. The write to the cache sits inside the \<open>try\<close> block of the fetch. With an empty
  cache, a fetch that succeeds and a write that throws, \<open>getRates\<close> reaches the
  \<open>catch\<close> branch: it warns and returns the built-in table with provenance
  \<open>fallback\<close>, not the rates it has just fetched.
\<close>

theorem getRates_write_failure_returns_fallback:
  "fetchLiveRates (remote ((online 1700000000000)\<lparr>save_write_fault := True\<rparr>)) =
     Inr provider_rates \<and>
   getRates ((online 1700000000000)\<lparr>save_write_fault := True\<rparr>) empty_db =
     \<lparr>result = Inr \<lparr>rates = FALLBACK_RATES_FROM_USD, source = Fallback,
                    fetchedAt = None, ageMinutes = None\<rparr>,
      store = empty_db, fetch_calls = 1, warned = [StorageError]\<rparr>"
  by (simp add: getRates_defs fetch_defs scenario_defs)

text \<open>
  C8, as stated, fails: a response that parses and carries only \<open>USD\<close> is not rejected.
  The three missing currencies come back with the value \<open>undefined\<close>.
\<close>

theorem fetchLiveRates_missing_currency_counterexample:
  "fetchLiveRates
     (Response True 200 (Some (Obj [(''rates'', Obj [(''USD'', Num (Finite False 1))])]))) =
   Inr (Obj [(''USD'', Num (Finite False 1)), (''EUR'', Undefined),
             (''CNY'', Undefined), (''MGA'', Undefined)])"
  by (simp add: fetch_defs)

text \<open>
  C8, amended. For a response that parses to an object, \<open>fetchLiveRates\<close> fails (with a
  TypeError) when the object has no \<open>rates\<close> member. When \<open>rates\<close> is an object it
  returns an object with exactly the keys \<open>USD\<close>, \<open>EUR\<close>, \<open>CNY\<close>, \<open>MGA\<close>: each carries
  the provider's value, or \<open>undefined\<close> when the provider has none, and every other
  member of the response is dropped.
\<close>

theorem fetchLiveRates_supported_keys:
  "(map_of body ''rates'' = None \<longrightarrow>
      fetchLiveRates (Response True status (Some (Obj body))) = Inl TypeError) \<and>
   (map_of body ''rates'' = Some (Obj kvs) \<longrightarrow>
      fetchLiveRates (Response True status (Some (Obj body))) =
        Inr (Obj [(''USD'', own_prop kvs ''USD''), (''EUR'', own_prop kvs ''EUR''),
                  (''CNY'', own_prop kvs ''CNY''), (''MGA'', own_prop kvs ''MGA'')]))"
  by (simp add: fetchLiveRates_def data_rate_def and_then_def get_prop_def own_prop_def)

text \<open>C8 amended, at a body without \<open>rates\<close> and at one with \<open>USD\<close> and \<open>GBP\<close> only.\<close>

theorem fetchLiveRates_supported_keys_witness:
  "map_of [(''result'', Str ''error'')] ''rates'' = None \<and>
   fetchLiveRates (Response True 200 (Some (Obj [(''result'', Str ''error'')]))) =
     Inl TypeError \<and>
   map_of [(''rates'', Obj [(''USD'', Num (Finite False 1)), (''GBP'', Num (Finite False 2))])]
     ''rates'' = Some (Obj [(''USD'', Num (Finite False 1)), (''GBP'', Num (Finite False 2))]) \<and>
   fetchLiveRates (Response True 200
       (Some (Obj [(''rates'', Obj [(''USD'', Num (Finite False 1)),
                                    (''GBP'', Num (Finite False 2))])]))) =
     Inr (Obj [(''USD'', Num (Finite False 1)), (''EUR'', Undefined),
               (''CNY'', Undefined), (''MGA'', Undefined)])"
  using
    fetchLiveRates_supported_keys
      [where body = "[(''result'', Str ''error'')]" and status = 200]
    fetchLiveRates_supported_keys
      [where body = "[(''rates'', Obj [(''USD'', Num (Finite False 1)),
                                       (''GBP'', Num (Finite False 2))])]"
         and kvs = "[(''USD'', Num (Finite False 1)), (''GBP'', Num (Finite False 2))]"
         and status = 200]
  by (simp add: own_prop_def)

text \<open>
  C9. When the database call throws, \<open>saveToHistory\<close> returns normally and
  \<open>getHistory\<close> returns the empty list, but \<open>clearHistory\<close>, which has no \<open>try\<close>
  block, throws the storage error to its caller.
\<close>

theorem clearHistory_propagates_storage_error:
  "saveToHistory True now f t a r x d = (Inr (), d) \<and>
   getHistory True limit d = Inr [] \<and>
   clearHistory True d = (Inl StorageError, d)"
  by (simp add: saveToHistory_def getHistory_def clearHistory_def
      insert_history_def select_history_def delete_history_def)

section \<open>Properties of the conversion\<close>

lemma js_div_NaN_right: "js_div a NaN = NaN"
  by (cases a) simp_all

lemma js_mul_NaN_right: "js_mul a NaN = NaN"
  by (cases a) simp_all

lemmas convert_defs = convert_def isNaN_def to_number_def parse_float_def and_then_def
  get_prop_def own_prop_def Let_def

text \<open>A rate that is an object with a \<open>toString\<close> of its own makes the product throw.\<close>

lemma convert_object_rate_throws:
  "convert (Num (Finite False 100)) ''XAF'' ''USD''
     (Obj [(''USD'', Obj [(''toString'', Num (Finite False 1))])]) = Inl TypeError"
  by (simp add: convert_defs via_text_def)

text \<open>
  C6. \<open>null\<close>, a blank string and \<open>true\<close> are not numeric values, yet \<open>isNaN\<close> is
  false for them (they coerce to 0, 0 and 1) and none is the empty string, so the guard
  lets them through; \<open>parseFloat\<close> reads NaN from their text and \<open>convert\<close> returns NaN,
  not \<open>0\<close>.
\<close>

theorem convert_non_numeric_returns_NaN:
  "convert Null ''USD'' ''EUR'' FALLBACK_RATES_FROM_USD = Inr NaN \<and>
   convert (Str '' '') ''USD'' ''EUR'' FALLBACK_RATES_FROM_USD = Inr NaN \<and>
   convert (Bool True) ''USD'' ''EUR'' FALLBACK_RATES_FROM_USD = Inr NaN"
proof -
  have s: "string_to_number '' '' = Finite False 0"
    by (simp add: string_to_number_def trim_def is_ws_def)
  have p: "parse_float_string '' '' = NaN"
    by (simp add: parse_float_string_def trim_start_def is_ws_def str_decimal_literal_def
        sign_prefix_def)
  show ?thesis
    by (simp add: convert_defs FALLBACK_RATES_FROM_USD_def s p)
qed

lemma rate_mapping_entry:
  assumes "rate_mapping kvs"
  shows "\<exists>n. to_number (own_prop kvs k) = Inr n"
proof (cases "map_of kvs k")
  case None
  then show ?thesis by (simp add: own_prop_def to_number_def)
next
  case (Some v)
  then have "(k, v) \<in> set kvs" by (rule map_of_SomeD)
  with assms have "case v of Num n \<Rightarrow> True | _ \<Rightarrow> False"
    by (auto simp add: rate_mapping_def list_all_iff)
  then obtain n where "v = Num n" by (cases v) simp_all
  with Some show ?thesis by (simp add: own_prop_def to_number_def)
qed

text \<open>
  C10. When \<open>rates\<close> is a rate mapping, \<open>amount\<close> passes the guard and one of the two
  currencies has no entry in \<open>rates\<close>, \<open>convert\<close> does not throw and does not return
  \<open>0\<close>: the missing entry reads as \<open>undefined\<close>, and the division or the multiplication
  by it gives NaN.
\<close>

theorem convert_unknown_currency:
  assumes "rate_mapping kvs" and "isNaN amount = Inr False" and "amount \<noteq> Str []"
    and "map_of kvs fromCurrency = None \<or> map_of kvs toCurrency = None"
  shows "convert amount fromCurrency toCurrency (Obj kvs) = Inr NaN"
proof -
  obtain rf where rf: "to_number (own_prop kvs fromCurrency) = Inr rf"
    using rate_mapping_entry [OF assms(1)] by blast
  obtain rt where rt: "to_number (own_prop kvs toCurrency) = Inr rt"
    using rate_mapping_entry [OF assms(1)] by blast
  have t: "\<not> text_throws amount"
    using assms(2) by (auto simp add: isNaN_def to_number_def and_then_def split: if_splits)
  have c: "convert amount fromCurrency toCurrency (Obj kvs) =
             Inr (js_mul (js_div (float_prefix amount) rf) rt)"
    using assms(2,3) t rf rt
    by (simp add: convert_def parse_float_def and_then_def get_prop_def Let_def)
  from assms(4) show ?thesis
  proof
    assume "map_of kvs fromCurrency = None"
    then have "rf = NaN" using rf by (simp add: own_prop_def to_number_def)
    then show ?thesis using c by (simp add: js_div_NaN_right)
  next
    assume "map_of kvs toCurrency = None"
    then have "rt = NaN" using rt by (simp add: own_prop_def to_number_def)
    then show ?thesis using c by (simp add: js_mul_NaN_right)
  qed
qed

text \<open>C10 with the unknown code \<open>XAF\<close> as source and as target.\<close>

theorem convert_unknown_currency_witness:
  "rate_mapping [(''USD'', Num (Finite False 1)), (''MGA'', Num (Finite False 4500))] \<and>
   isNaN (Num (Finite False 100)) = Inr False \<and> Num (Finite False 100) \<noteq> Str [] \<and>
   map_of [(''USD'', Num (Finite False 1)), (''MGA'', Num (Finite False 4500))] ''XAF'' = None \<and>
   convert (Num (Finite False 100)) ''XAF'' ''MGA''
     (Obj [(''USD'', Num (Finite False 1)), (''MGA'', Num (Finite False 4500))]) = Inr NaN \<and>
   convert (Num (Finite False 100)) ''USD'' ''XAF''
     (Obj [(''USD'', Num (Finite False 1)), (''MGA'', Num (Finite False 4500))]) = Inr NaN"
proof -
  let ?kvs = "[(''USD'', Num (Finite False 1)), (''MGA'', Num (Finite False 4500))]"
  have m: "rate_mapping ?kvs" by (simp add: rate_mapping_def)
  have a: "isNaN (Num (Finite False 100)) = Inr False"
    by (simp add: isNaN_def to_number_def and_then_def)
  have b: "Num (Finite False 100) \<noteq> Str []" by simp
  have c: "map_of ?kvs ''XAF'' = None" by simp
  show ?thesis
    using m a c
      convert_unknown_currency [OF m a b disjI1 [OF c], of "''MGA''"]
      convert_unknown_currency [OF m a b disjI2 [OF c], of "''USD''"]
    by simp
qed

text \<open>The arithmetic of converting 15 ariary to ariary at the built-in rate 4500.\<close>

lemma lit_4500: "lit 4500 = Finite False 4500"
proof -
  have h: "round_double False 4500 = Finite False (of_int (4500 * 2 ^ 40) * pow2 (12 - 52))"
    by (rule round_double_normal) (simp_all add: pow2_def)
  have v: "of_int (4500 * 2 ^ 40) * pow2 (12 - 52) = (4500 :: rat)"
    by (simp add: pow2_def)
  have a: "\<bar>4500 :: rat\<bar> = 4500" "((4500 :: rat) < 0) = False" by simp_all
  show ?thesis unfolding lit_def a using h unfolding v .
qed

lemma div_15_4500:
  "round_double False (15 / 4500) = Finite False (7686143364045647 / 2 ^ 61)"
proof -
  have h: "round_double False (15 / 4500) =
          Finite False (of_int 7686143364045647 * pow2 (- 9 - 52))"
    by (rule round_double_normal) (simp_all add: pow2_def)
  have v: "of_int 7686143364045647 * pow2 (- 9 - 52) = (7686143364045647 / 2 ^ 61 :: rat)"
    by (simp add: pow2_def)
  show ?thesis using h unfolding v .
qed

lemma mul_back_4500:
  "round_double False (7686143364045647 / 2 ^ 61 * 4500) =
     Finite False (8444249301319681 / 2 ^ 49)"
proof -
  have h: "round_double False (7686143364045647 / 2 ^ 61 * 4500) =
          Finite False (of_int 8444249301319681 * pow2 (3 - 52))"
    by (rule round_double_normal) (simp_all add: pow2_def)
  have v: "of_int 8444249301319681 * pow2 (3 - 52) = (8444249301319681 / 2 ^ 49 :: rat)"
    by (simp add: pow2_def)
  show ?thesis using h unfolding v .
qed

text \<open>
  C7, as stated, fails: with the built-in table, \<open>convert(15, 'MGA', 'MGA', rates)\<close> is
  \<open>15.000000000000002\<close>, one unit in the last place above 15, because \<open>15 / 4500\<close> is
  rounded before it is multiplied back.
\<close>

theorem convert_same_currency_counterexample:
  "convert (Num (Finite False 15)) ''MGA'' ''MGA'' FALLBACK_RATES_FROM_USD =
     Inr (Finite False (15 + 1 / 2 ^ 49))"
proof -
  have d: "js_div (Finite False 15) (Finite False 4500) = round_double False (15 / 4500)"
    by simp
  have m: "js_mul (Finite False (7686143364045647 / 2 ^ 61)) (Finite False 4500) =
             round_double False (7686143364045647 / 2 ^ 61 * 4500)"
    by simp
  have v: "(8444249301319681 / 2 ^ 49 :: rat) = 15 + 1 / 2 ^ 49" by simp
  have "convert (Num (Finite False 15)) ''MGA'' ''MGA'' FALLBACK_RATES_FROM_USD =
          Inr (js_mul (js_div (Finite False 15) (lit 4500)) (lit 4500))"
    by (simp add: convert_defs FALLBACK_RATES_FROM_USD_def via_text_def)
  also have "\<dots> = Inr (Finite False (15 + 1 / 2 ^ 49))"
    unfolding lit_4500 d div_15_4500 m mul_back_4500 v ..
  finally show ?thesis .
qed

text \<open>
  C7, amended. For a currency \<open>a\<close> whose rate is a finite non-zero number, and an amount
  \<open>x\<close> such that \<open>x\<close> and \<open>x / rate\<close> lie in the normal range of binary64,
  \<open>convert(x, a, a, rates)\<close> has the sign of \<open>x\<close> and differs from \<open>x\<close> by at most
  \<open>(2^-52 + 2^-106) * x\<close>: the two roundings, of the quotient and of the product.
\<close>

theorem convert_same_currency_tolerance:
  assumes "map_of kvs a = Some (Num (Finite sr r))" and "0 < r"
    and "pow2 (- 1021) \<le> x" and "x \<le> pow2 1022"
    and "pow2 (- 1022) \<le> x / r" and "x / r \<le> pow2 1023"
  shows "\<exists>z. convert (Num (Finite sx x)) a a (Obj kvs) = Inr (Finite sx z) \<and>
             \<bar>z - x\<bar> \<le> x * (1 / 2 ^ 52 + 1 / 2 ^ 106)"
proof -
  have x: "0 < x" using assms(3) pow2_pos [of "- 1021"] by linarith
  obtain y where y: "round_double (sx \<noteq> sr) (x / r) = Finite (sx \<noteq> sr) y"
    and ey: "\<bar>y - x / r\<bar> \<le> x / r / 2 ^ 53"
    using round_double_error [OF assms(5,6)] by blast
  have "\<bar>y - x / r\<bar> * r \<le> x / r / 2 ^ 53 * r"
    using ey assms(2) by (intro mult_right_mono) simp_all
  moreover have "\<bar>y - x / r\<bar> * r = \<bar>y * r - x\<bar>"
  proof -
    have "\<bar>y - x / r\<bar> * r = \<bar>y - x / r\<bar> * \<bar>r\<bar>" using assms(2) by simp
    also have "\<dots> = \<bar>(y - x / r) * r\<bar>" by (simp only: abs_mult)
    also have "(y - x / r) * r = y * r - x" using assms(2) by (simp add: left_diff_distrib)
    finally show ?thesis .
  qed
  moreover have "x / r / 2 ^ 53 * r = x / 2 ^ 53" using assms(2) by simp
  ultimately have e1: "\<bar>y * r - x\<bar> \<le> x / 2 ^ 53" by simp
  have lo: "pow2 (- 1022) \<le> y * r"
  proof -
    have "pow2 (- 1022) \<le> pow2 (- 1021) - pow2 (- 1021) / 2 ^ 53" by (simp add: pow2_def)
    also have "\<dots> = pow2 (- 1021) * (1 - 1 / 2 ^ 53)" by (simp add: algebra_simps)
    also have "\<dots> \<le> x * (1 - 1 / 2 ^ 53)"
      using assms(3) by (intro mult_right_mono) simp_all
    also have "\<dots> = x - x / 2 ^ 53" by (simp add: algebra_simps)
    also have "\<dots> \<le> y * r" using e1 by linarith
    finally show ?thesis .
  qed
  have hi: "y * r \<le> pow2 1023"
  proof -
    have "y * r \<le> x + x / 2 ^ 53" using e1 by linarith
    also have "\<dots> = x * (1 + 1 / 2 ^ 53)" by (simp add: algebra_simps)
    also have "\<dots> \<le> pow2 1022 * (1 + 1 / 2 ^ 53)"
      using assms(4) by (intro mult_right_mono) simp_all
    also have "\<dots> \<le> pow2 1023" by (simp add: pow2_def)
    finally show ?thesis .
  qed
  obtain z where z: "round_double sx (y * r) = Finite sx z"
    and ez: "\<bar>z - y * r\<bar> \<le> y * r / 2 ^ 53"
    using round_double_error [OF lo hi] by blast
  have "y * r \<le> x + x / 2 ^ 53" using e1 by linarith
  then have "y * r / 2 ^ 53 \<le> (x + x / 2 ^ 53) / 2 ^ 53"
    by (intro divide_right_mono) simp_all
  then have "\<bar>z - x\<bar> \<le> (x + x / 2 ^ 53) / 2 ^ 53 + x / 2 ^ 53"
    using ez e1 by linarith
  also have "\<dots> = x * (1 / 2 ^ 52 + 1 / 2 ^ 106)" by (simp add: algebra_simps)
  finally have err: "\<bar>z - x\<bar> \<le> x * (1 / 2 ^ 52 + 1 / 2 ^ 106)" .
  have s: "((sx \<noteq> sr) \<noteq> sr) = sx" by auto
  have "js_div (Finite sx x) (Finite sr r) = round_double (sx \<noteq> sr) (x / r)"
    using assms(2) by simp
  then have d: "js_div (Finite sx x) (Finite sr r) = Finite (sx \<noteq> sr) y"
    by (simp only: y)
  have "js_mul (Finite (sx \<noteq> sr) y) (Finite sr r) = round_double ((sx \<noteq> sr) \<noteq> sr) (y * r)"
    by (simp only: js_mul.simps)
  then have m: "js_mul (Finite (sx \<noteq> sr) y) (Finite sr r) = Finite sx z"
    by (simp only: s z)
  have "convert (Num (Finite sx x)) a a (Obj kvs) =
          Inr (js_mul (js_div (Finite sx x) (Finite sr r)) (Finite sr r))"
    using assms(1) x
    by (simp add: convert_defs via_text_def del: js_div.simps js_mul.simps)
  then have "convert (Num (Finite sx x)) a a (Obj kvs) = Inr (Finite sx z)"
    by (simp only: d m)
  with err show ?thesis by blast
qed


text \<open>C7 amended, at 15 ariary and the built-in table.\<close>

theorem convert_same_currency_tolerance_witness:
  "map_of [(''USD'', Num (lit 1)), (''EUR'', Num (lit (92 / 100))),
           (''CNY'', Num (lit (724 / 100))), (''MGA'', Num (lit 4500))] ''MGA'' =
     Some (Num (Finite False 4500)) \<and>
   (0 :: rat) < 4500 \<and> pow2 (- 1021) \<le> 15 \<and> 15 \<le> pow2 1022 \<and>
   pow2 (- 1022) \<le> 15 / 4500 \<and> 15 / 4500 \<le> pow2 1023 \<and>
   (\<exists>z. convert (Num (Finite False 15)) ''MGA'' ''MGA'' FALLBACK_RATES_FROM_USD =
          Inr (Finite False z) \<and>
        \<bar>z - 15\<bar> \<le> 15 * (1 / 2 ^ 52 + 1 / 2 ^ 106))"
proof -
  let ?kvs = "[(''USD'', Num (lit 1)), (''EUR'', Num (lit (92 / 100))),
               (''CNY'', Num (lit (724 / 100))), (''MGA'', Num (lit 4500))]"
  have k: "map_of ?kvs ''MGA'' = Some (Num (Finite False 4500))"
    by (simp add: lit_4500)
  have r: "(0 :: rat) < 4500" by simp
  have x1: "pow2 (- 1021) \<le> 15" by (simp add: pow2_def)
  have x2: "15 \<le> pow2 1022" by (simp add: pow2_def)
  have q1: "pow2 (- 1022) \<le> 15 / 4500" by (simp add: pow2_def)
  have q2: "15 / 4500 \<le> pow2 1023" by (simp add: pow2_def)
  have c: "\<exists>z. convert (Num (Finite False 15)) ''MGA'' ''MGA'' FALLBACK_RATES_FROM_USD =
              Inr (Finite False z) \<and>
            \<bar>z - 15\<bar> \<le> 15 * (1 / 2 ^ 52 + 1 / 2 ^ 106)"
    unfolding FALLBACK_RATES_FROM_USD_def
    by (rule convert_same_currency_tolerance [OF k r x1 x2 q1 q2])
  show ?thesis using k r x1 x2 q1 q2 c by blast
qed

end
